theory Spec2Isabelle
  imports Complex_Main
begin

section \<open>Python values, exceptions and the libraries the program calls\<close>

text \<open>
  The program is one Python module, \<^verbatim>\<open>backend/src/app.py\<close>: two coordinate
  extractors (\<^verbatim>\<open>parse_coords_json\<close>, \<^verbatim>\<open>parse_coords_excel\<close>), a chart renderer
  (\<^verbatim>\<open>create_plot\<close>), a PDF rasterizer (\<^verbatim>\<open>pdf_to_images\<close>) and the request
  handler (\<^verbatim>\<open>generate_doc\<close>).

  Exceptions are values: a function that may raise returns \<open>exn + 'a\<close>, with \<open>Inl\<close> the
  exception raised. A constructor of \<open>exn\<close> stands for a Python exception class together with
  its subclasses (\<open>ValueError\<close> covers \<^verbatim>\<open>json.JSONDecodeError\<close>), and carries the text
  \<^verbatim>\<open>str(exc)\<close> gives. \<open>OtherException\<close> is any other subclass of \<^verbatim>\<open>Exception\<close>.

  The module's string literals are Russian. They are written here in Latin transliteration,
  one named constant per literal; no property below depends on their letters.
\<close>

datatype exn =
    ValueError string
  | TypeError string
  | OverflowError string
  | RuntimeError string
  | MemoryError string
  | OtherException string

fun str_exn :: "exn \<Rightarrow> string" where
  "str_exn (ValueError m) = m"
| "str_exn (TypeError m) = m"
| "str_exn (OverflowError m) = m"
| "str_exn (RuntimeError m) = m"
| "str_exn (MemoryError m) = m"
| "str_exn (OtherException m) = m"

text \<open>
  The values \<^verbatim>\<open>json.loads\<close> and openpyxl hand to the program. The type \<open>'f\<close> is
  Python's \<^verbatim>\<open>float\<close>, kept abstract: nothing below computes with floats, it only moves
  them. \<open>PObject\<close> is an object of any other class, named by its type (a spreadsheet cell can
  hold a \<^verbatim>\<open>datetime\<close>).
\<close>

datatype 'f pyval =
    PNone
  | PBool bool
  | PInt int
  | PFloat 'f
  | PStr string
  | PList "'f pyval list"
  | PDict "(string \<times> 'f pyval) list"
  | PObject string

type_synonym bytes = string

type_synonym 'f coord = "'f \<times> 'f"

text \<open>
  A page of an opened PDF, as the rasterizer's loop meets it: fetching the page from the
  document may raise (\<open>PageLoadError\<close>); a fetched page carries the outcome of
  \<^verbatim>\<open>io.BytesIO(page.get_pixmap(dpi=150).tobytes("png"))\<close>.
\<close>

datatype page = PageLoadError exn | Page "exn + bytes"

text \<open>What the renderer puts on the axes, in call order.\<close>

datatype 'f artist =
    Scatter "'f list" "'f list"
  | Plot "'f list" "'f list" string "nat option"
  | AxesText rat rat string
  | XLabel string
  | YLabel string
  | Grid bool

text \<open>What the handler puts into the report document, in call order.\<close>

datatype block = Heading string nat | Paragraph string | Picture bytes nat

text \<open>
  The builtins and third-party libraries are parameters of the model: the theorems hold
  whatever these functions return.
  \<^item> \<open>float_of_bool\<close>, \<open>float_of_int\<close>, \<open>float_of_str\<close>: \<^verbatim>\<open>float(v)\<close> on a bool, an
    int (which may raise \<^verbatim>\<open>OverflowError\<close>) and a string (which may raise
    \<^verbatim>\<open>ValueError\<close>).
  \<^item> \<open>py_sorted\<close>: \<^verbatim>\<open>sorted(pairs, key=lambda p: p[0])\<close> on a list of two pairs
    or more (with a NaN among the keys the order depends on the sorting algorithm).
  \<^item> \<open>json_loads\<close>: \<^verbatim>\<open>json.loads\<close>.
  \<^item> \<open>load_workbook\<close>: lines 74-75 and the rows that
    \<^verbatim>\<open>ws.iter_rows(min_row=2, values_only=True)\<close> yields for the uploaded bytes, each row
    the list of its cell values; \<open>Inl\<close> when reading the upload or opening the workbook
    raises.
  \<^item> \<open>fitz_open\<close>: \<^verbatim>\<open>fitz.open(stream=pdf_bytes, filetype="pdf")\<close>, the opened document
    given as the list of its pages.
  \<^item> \<open>polyfit\<close>: \<^verbatim>\<open>np.polyfit(xs, ys, 1)\<close>, the pair \<^verbatim>\<open>(p[0], p[1])\<close>;
    \<open>polyval\<close>: \<^verbatim>\<open>np.polyval\<close>; \<open>format_3f\<close>: the format \<^verbatim>\<open>.3f\<close> of a float.
  \<^item> \<open>savefig\<close>: the PNG that matplotlib encodes from the figure, \<open>Inl\<close> when a call
    of lines 106-133 raises.
  \<^item> \<open>docx_save\<close>: the bytes python-docx saves for the document built in lines 215-229,
    \<open>Inl\<close> when one of these calls raises.
\<close>

record 'f lib =
  float_of_bool :: "bool \<Rightarrow> 'f"
  float_of_int :: "int \<Rightarrow> exn + 'f"
  float_of_str :: "string \<Rightarrow> exn + 'f"
  py_sorted :: "'f coord list \<Rightarrow> 'f coord list"
  json_loads :: "string \<Rightarrow> exn + 'f pyval"
  load_workbook :: "bytes \<Rightarrow> exn + 'f pyval list list"
  fitz_open :: "bytes \<Rightarrow> exn + page list"
  polyfit :: "'f list \<Rightarrow> 'f list \<Rightarrow> exn + 'f \<times> 'f"
  polyval :: "'f \<times> 'f \<Rightarrow> 'f list \<Rightarrow> 'f list"
  format_3f :: "'f \<Rightarrow> string"
  savefig :: "'f artist list \<Rightarrow> exn + bytes"
  docx_save :: "block list \<Rightarrow> exn + bytes"

text \<open>
  \<^verbatim>\<open>float(v)\<close>. A bool converts always, an int unless it overflows, a string when it
  parses; \<^verbatim>\<open>None\<close>, a list, a dict and an object without \<^verbatim>\<open>__float__\<close> raise
  \<^verbatim>\<open>TypeError\<close>.
\<close>

definition float_type_error :: "string \<Rightarrow> exn" where
  "float_type_error ty =
     TypeError (''float() argument must be a string or a real number, not '' @
                [CHR 0x27] @ ty @ [CHR 0x27])"

fun py_float :: "'f lib \<Rightarrow> 'f pyval \<Rightarrow> exn + 'f" where
  "py_float L PNone = Inl (float_type_error ''NoneType'')"
| "py_float L (PBool b) = Inr (float_of_bool L b)"
| "py_float L (PInt n) = float_of_int L n"
| "py_float L (PFloat x) = Inr x"
| "py_float L (PStr s) = float_of_str L s"
| "py_float L (PList vs) = Inl (float_type_error ''list'')"
| "py_float L (PDict kvs) = Inl (float_type_error ''dict'')"
| "py_float L (PObject ty) = Inl (float_type_error ty)"

section \<open>Coordinates from the JSON form field\<close>

definition msg_not_a_list :: string where
  "msg_not_a_list = ''JSON dolzhen byt spiskom koordinat''"

definition msg_coords_empty :: string where
  "msg_coords_empty = ''Spisok koordinat pust''"

definition msg_bad_coords :: string where
  "msg_bad_coords = ''Nekorrektnye koordinaty: ''"

text \<open>
  One element of the decoded array, lines 49-50: \<open>None\<close> when the element is not a list of
  length 2 (it is passed over), otherwise the outcome of the two \<^verbatim>\<open>float\<close> calls, the
  first element's first.
\<close>

fun json_pair :: "'f lib \<Rightarrow> 'f pyval \<Rightarrow> (exn + 'f coord) option" where
  "json_pair L (PList [a, b]) =
     Some (case py_float L a of
             Inl e \<Rightarrow> Inl e
           | Inr x \<Rightarrow> (case py_float L b of Inl e \<Rightarrow> Inl e | Inr y \<Rightarrow> Inr (x, y)))"
| "json_pair L v = None"

text \<open>The loop of lines 47-50, with \<^verbatim>\<open>coords\<close> as accumulator.\<close>

fun json_pairs :: "'f lib \<Rightarrow> 'f pyval list \<Rightarrow> 'f coord list \<Rightarrow> exn + 'f coord list" where
  "json_pairs L [] coords = Inr coords"
| "json_pairs L (pair # data) coords =
     (case json_pair L pair of
        None \<Rightarrow> json_pairs L data coords
      | Some (Inl e) \<Rightarrow> Inl e
      | Some (Inr c) \<Rightarrow> json_pairs L data (coords @ [c]))"

text \<open>The body of the \<^verbatim>\<open>try\<close>, lines 43-55.\<close>

definition parse_coords_json_try :: "'f lib \<Rightarrow> string \<Rightarrow> exn + 'f coord list" where
  "parse_coords_json_try L coords_json =
     (case json_loads L coords_json of
        Inl e \<Rightarrow> Inl e
      | Inr (PList data) \<Rightarrow>
          (case json_pairs L data [] of
             Inl e \<Rightarrow> Inl e
           | Inr coords \<Rightarrow>
               if coords = [] then Inl (ValueError msg_coords_empty)
               else Inr (take 10 coords))
      | Inr other \<Rightarrow> Inl (ValueError msg_not_a_list))"

text \<open>The function: every exception of the body is raised again as a \<^verbatim>\<open>ValueError\<close>.\<close>

definition parse_coords_json :: "'f lib \<Rightarrow> string \<Rightarrow> exn + 'f coord list" where
  "parse_coords_json L coords_json =
     (case parse_coords_json_try L coords_json of
        Inl exc \<Rightarrow> Inl (ValueError (msg_bad_coords @ str_exn exc))
      | Inr coords \<Rightarrow> Inr coords)"

section \<open>Coordinates from the spreadsheet\<close>

text \<open>\<^verbatim>\<open>str(n)\<close> for a natural number, as the f-strings print counts and page numbers.\<close>

fun str_nat :: "nat \<Rightarrow> string" where
  "str_nat n =
     (if n < 10 then [''0123456789'' ! n]
      else str_nat (n div 10) @ [''0123456789'' ! (n mod 10)])"

declare str_nat.simps [simp del]

definition unpack_error :: "nat \<Rightarrow> exn" where
  "unpack_error got =
     ValueError (''not enough values to unpack (expected 2, got '' @ str_nat got @ '')'')"

definition msg_excel_empty :: string where
  "msg_excel_empty = ''V Excel-faile net koordinat''"

definition msg_excel_error :: string where
  "msg_excel_error = ''Oshibka Excel: ''"

text \<open>
  One row, lines 79-81: \<^verbatim>\<open>x, y = row[:2]\<close> raises when the row has fewer than two
  cells; \<open>Inr None\<close> when a cell is \<^verbatim>\<open>None\<close> and nothing is appended; otherwise the
  outcome of the two \<^verbatim>\<open>float\<close> calls.
\<close>

definition excel_row :: "'f lib \<Rightarrow> 'f pyval list \<Rightarrow> exn + 'f coord option" where
  "excel_row L row =
     (case take 2 row of
        [x, y] \<Rightarrow>
          if x \<noteq> PNone \<and> y \<noteq> PNone then
            (case py_float L x of
               Inl e \<Rightarrow> Inl e
             | Inr fx \<Rightarrow> (case py_float L y of Inl e \<Rightarrow> Inl e | Inr fy \<Rightarrow> Inr (Some (fx, fy))))
          else Inr None
      | short \<Rightarrow> Inl (unpack_error (length short)))"

text \<open>
  The loop of lines 77-83 over the rows \<^verbatim>\<open>iter_rows(min_row=2, values_only=True)\<close>
  yields: the \<^verbatim>\<open>break\<close> test follows every row, and the rows after a
  \<^verbatim>\<open>break\<close> are not looked at.
\<close>

fun excel_rows :: "'f lib \<Rightarrow> 'f pyval list list \<Rightarrow> 'f coord list \<Rightarrow> exn + 'f coord list" where
  "excel_rows L [] coords = Inr coords"
| "excel_rows L (row # rows) coords =
     (case excel_row L row of
        Inl e \<Rightarrow> Inl e
      | Inr r \<Rightarrow>
          (let coords' = (case r of None \<Rightarrow> coords | Some c \<Rightarrow> coords @ [c])
           in if length coords' \<ge> 10 then Inr coords' else excel_rows L rows coords'))"

definition parse_coords_excel_try :: "'f lib \<Rightarrow> bytes \<Rightarrow> exn + 'f coord list" where
  "parse_coords_excel_try L excel_file =
     (case load_workbook L excel_file of
        Inl e \<Rightarrow> Inl e
      | Inr rows \<Rightarrow>
          (case excel_rows L rows [] of
             Inl e \<Rightarrow> Inl e
           | Inr coords \<Rightarrow>
               if coords = [] then Inl (ValueError msg_excel_empty) else Inr coords))"

definition parse_coords_excel :: "'f lib \<Rightarrow> bytes \<Rightarrow> exn + 'f coord list" where
  "parse_coords_excel L excel_file =
     (case parse_coords_excel_try L excel_file of
        Inl exc \<Rightarrow> Inl (ValueError (msg_excel_error @ str_exn exc))
      | Inr coords \<Rightarrow> Inr coords)"

section \<open>The chart\<close>

text \<open>
  \<^verbatim>\<open>sorted(pairs, key=lambda p: p[0])\<close>, line 109. A list of fewer than two pairs is
  returned as it is, without a comparison; the order of a longer list is the builtin's.
\<close>

definition sorted_by_x :: "'f lib \<Rightarrow> 'f coord list \<Rightarrow> 'f coord list" where
  "sorted_by_x L pairs = (if length pairs < 2 then pairs else py_sorted L pairs)"

definition trend_label :: string where
  "trend_label = ''Trend: y=''"

text \<open>
  Lines 113-123: the trend line and its annotation, for two points or more.
  \<^verbatim>\<open>np.polyfit\<close> gets the coordinates in their original order.
\<close>

definition trend_artists ::
    "'f lib \<Rightarrow> 'f list \<Rightarrow> 'f list \<Rightarrow> 'f list \<Rightarrow> exn + 'f artist list" where
  "trend_artists L xs ys xs_s =
     (if length xs \<ge> 2 then
        (case polyfit L xs ys of
           Inl e \<Rightarrow> Inl e
         | Inr p \<Rightarrow>
             Inr [Plot xs_s (polyval L p xs_s) ''--'' (Some 1),
                  AxesText (2 / 100) (98 / 100)
                    (trend_label @ format_3f L (fst p) @ ''x+'' @ format_3f L (snd p))])
      else Inr [])"

text \<open>
  \<^verbatim>\<open>xs, ys = zip(*coords)\<close> raises on an empty list. The drawing calls only add to
  the axes; \<open>savefig\<close> stands for the encoding of the figure and may fail.
\<close>

definition create_plot :: "'f lib \<Rightarrow> 'f coord list \<Rightarrow> exn + bytes" where
  "create_plot L coords =
     (if coords = [] then Inl (unpack_error 0)
      else
        (let xs = map fst coords;
             ys = map snd coords;
             sorted_pairs = sorted_by_x L (zip xs ys);
             xs_s = map fst sorted_pairs;
             ys_s = map snd sorted_pairs
         in case trend_artists L xs ys xs_s of
              Inl e \<Rightarrow> Inl e
            | Inr trend \<Rightarrow>
                savefig L
                  ([Scatter xs ys, Plot xs_s ys_s ''-'' None] @ trend @
                   [XLabel ''X'', YLabel ''Y'', Grid True])))"

section \<open>The PDF pages\<close>

text \<open>\<^verbatim>\<open>str.lower\<close>, on the ASCII letters.\<close>

definition lower_char :: "char \<Rightarrow> char" where
  "lower_char c =
     (case map_of (zip ''ABCDEFGHIJKLMNOPQRSTUVWXYZ'' ''abcdefghijklmnopqrstuvwxyz'') c of
        None \<Rightarrow> c
      | Some d \<Rightarrow> d)"

definition str_lower :: "string \<Rightarrow> string" where
  "str_lower s = map lower_char s"

text \<open>\<^verbatim>\<open>sub in s\<close> on strings.\<close>

fun str_prefix :: "string \<Rightarrow> string \<Rightarrow> bool" where
  "str_prefix [] s = True"
| "str_prefix (c # cs) [] = False"
| "str_prefix (c # cs) (d # ds) = (c = d \<and> str_prefix cs ds)"

fun str_contains :: "string \<Rightarrow> string \<Rightarrow> bool" where
  "str_contains sub [] = (sub = [])"
| "str_contains sub (c # cs) = (str_prefix sub (c # cs) \<or> str_contains sub cs)"

definition msg_pdf_empty :: string where
  "msg_pdf_empty = ''PDF-fail pustoi''"

definition msg_pdf_password :: string where
  "msg_pdf_password = ''PDF zashchishchen parolem''"

definition msg_pdf_broken :: string where
  "msg_pdf_broken = ''PDF povrezhden ili imeet nevernyi format''"

definition msg_pdf_structure :: string where
  "msg_pdf_structure = ''PDF imeet povrezhdennuyu strukturu''"

definition msg_pdf_cannot_open :: string where
  "msg_pdf_cannot_open = ''Nevozmozhno otkryt PDF: ''"

definition msg_page_memory :: "nat \<Rightarrow> string" where
  "msg_page_memory n =
     ''Nedostatochno pamyati dlya renderinga stranitsy '' @ str_nat n @ ''. '' @
     ''PDF slishkom bolshoi ili soderzhit ochen vysokoe razreshenie.''"

definition msg_page_render :: "nat \<Rightarrow> string \<Rightarrow> string" where
  "msg_page_render n diag = ''Oshibka renderinga stranitsy '' @ str_nat n @ '': '' @ diag"

definition msg_pdf_memory :: string where
  "msg_pdf_memory =
     ''Nedostatochno pamyati dlya obrabotki PDF. '' @
     ''Poprobuite zagruzit fail menshego razmera.''"

definition msg_pdf_error :: string where
  "msg_pdf_error = ''Oshibka PDF: ''"

text \<open>The handler of lines 154-164 for a \<^verbatim>\<open>RuntimeError\<close> of \<^verbatim>\<open>fitz.open\<close>.\<close>

definition classify_open_error :: "string \<Rightarrow> exn" where
  "classify_open_error e =
     (let msg = str_lower e in
        if str_contains ''encrypted'' msg \<or> str_contains ''password'' msg then
          ValueError msg_pdf_password
        else if str_contains ''cannot open broken document'' msg then
          ValueError msg_pdf_broken
        else if str_contains ''xref'' msg \<or> str_contains ''no objects'' msg then
          ValueError msg_pdf_structure
        else ValueError (msg_pdf_cannot_open @ e))"

text \<open>
  The loop of lines 166-179; \<open>page_number\<close> counts from 0. An exception of the iteration
  itself is outside the inner \<^verbatim>\<open>try\<close>.
\<close>

fun render_pages :: "nat \<Rightarrow> page list \<Rightarrow> bytes list \<Rightarrow> exn + bytes list" where
  "render_pages page_number [] images = Inr images"
| "render_pages page_number (PageLoadError e # doc) images = Inl e"
| "render_pages page_number (Page (Inr img) # doc) images =
     render_pages (page_number + 1) doc (images @ [img])"
| "render_pages page_number (Page (Inl (MemoryError m)) # doc) images =
     Inl (ValueError (msg_page_memory (page_number + 1)))"
| "render_pages page_number (Page (Inl e) # doc) images =
     Inl (ValueError (msg_page_render (page_number + 1) (str_exn e)))"

definition pdf_to_images_try :: "'f lib \<Rightarrow> bytes \<Rightarrow> exn + bytes list" where
  "pdf_to_images_try L pdf_bytes =
     (if pdf_bytes = [] then Inl (ValueError msg_pdf_empty)
      else
        (case fitz_open L pdf_bytes of
           Inl (RuntimeError e) \<Rightarrow> Inl (classify_open_error e)
         | Inl other \<Rightarrow> Inl other
         | Inr doc \<Rightarrow> render_pages 0 doc []))"

text \<open>The outer handlers, lines 183-189.\<close>

definition pdf_to_images :: "'f lib \<Rightarrow> bytes \<Rightarrow> exn + bytes list" where
  "pdf_to_images L pdf_bytes =
     (case pdf_to_images_try L pdf_bytes of
        Inl (MemoryError m) \<Rightarrow> Inl (ValueError msg_pdf_memory)
      | Inl exc \<Rightarrow> Inl (ValueError (msg_pdf_error @ str_exn exc))
      | Inr images \<Rightarrow> Inr images)"

section \<open>The request handler\<close>

datatype http_exception =
  HTTPException (status_code: nat) (detail: "(string \<times> string) list")

datatype response =
  StreamingResponse (content: bytes) (media_type: string) (headers: "(string \<times> string) list")

definition msg_no_coords :: string where
  "msg_no_coords = ''Ne peredany koordinaty''"

definition msg_internal :: string where
  "msg_internal = ''Vnutrennyaya oshibka servera: ''"

definition docx_media_type :: string where
  "docx_media_type =
     ''application/vnd.openxmlformats-officedocument.wordprocessingml.document''"

text \<open>Lines 223-226: \<^verbatim>\<open>enumerate(pdf_images, start=1)\<close>.\<close>

fun page_blocks :: "nat \<Rightarrow> bytes list \<Rightarrow> block list" where
  "page_blocks i [] = []"
| "page_blocks i (img # imgs) =
     Paragraph (''Stranitsa '' @ str_nat i @ '':'') # Picture img 6 # page_blocks (i + 1) imgs"

definition report_blocks :: "string option \<Rightarrow> bytes \<Rightarrow> bytes list \<Rightarrow> block list" where
  "report_blocks description plot_buf pdf_images =
     [Heading ''Opisanie'' 1,
      Paragraph (case description of
                   None \<Rightarrow> ''Opisanie raboty''
                 | Some d \<Rightarrow> if d = [] then ''Opisanie raboty'' else d),
      Heading ''Grafik po koordinatam'' 1,
      Paragraph ''Grafik.'',
      Picture plot_buf 6] @ page_blocks 1 pdf_images"

text \<open>
  Lines 199-204. An \<^verbatim>\<open>UploadFile\<close> is true whenever it is there; a string is true
  when it is not empty.
\<close>

definition request_coords ::
    "'f lib \<Rightarrow> string option \<Rightarrow> bytes option \<Rightarrow> exn + 'f coord list" where
  "request_coords L coords_json excel_file =
     (case excel_file of
        Some f \<Rightarrow> parse_coords_excel L f
      | None \<Rightarrow>
          (case coords_json of
             None \<Rightarrow> Inl (ValueError msg_no_coords)
           | Some s \<Rightarrow>
               if s = [] then Inl (ValueError msg_no_coords) else parse_coords_json L s))"

text \<open>
  The body of the \<^verbatim>\<open>try\<close>, lines 199-236. An uploaded file is given by its bytes:
  \<^verbatim>\<open>pdf_file.file.read()\<close> is taken to return them.
\<close>

definition generate_doc_try ::
    "'f lib \<Rightarrow> string option \<Rightarrow> string option \<Rightarrow> bytes option \<Rightarrow> bytes option \<Rightarrow> exn + response" where
  "generate_doc_try L description coords_json excel_file pdf_file =
     (case request_coords L coords_json excel_file of
        Inl e \<Rightarrow> Inl e
      | Inr coords \<Rightarrow>
          (case (case pdf_file of None \<Rightarrow> Inr [] | Some b \<Rightarrow> pdf_to_images L b) of
             Inl e \<Rightarrow> Inl e
           | Inr pdf_images \<Rightarrow>
               (case create_plot L coords of
                  Inl e \<Rightarrow> Inl e
                | Inr plot_buf \<Rightarrow>
                    (case docx_save L (report_blocks description plot_buf pdf_images) of
                       Inl e \<Rightarrow> Inl e
                     | Inr output \<Rightarrow>
                         Inr (StreamingResponse output docx_media_type
                                [(''Content-Disposition'',
                                  ''attachment; filename=generated_document.docx'')])))))"

text \<open>The handlers of lines 238-248.\<close>

definition generate_doc ::
    "'f lib \<Rightarrow> string option \<Rightarrow> string option \<Rightarrow> bytes option \<Rightarrow> bytes option
       \<Rightarrow> http_exception + response" where
  "generate_doc L description coords_json excel_file pdf_file =
     (case generate_doc_try L description coords_json excel_file pdf_file of
        Inl (ValueError m) \<Rightarrow> Inl (HTTPException 400 [(''error'', m)])
      | Inl exc \<Rightarrow> Inl (HTTPException 500 [(''error'', msg_internal @ str_exn exc)])
      | Inr resp \<Rightarrow> Inr resp)"

section \<open>Vocabulary of the properties\<close>

text \<open>
  The coordinates of the elements of a decoded array that are lists of two values which both
  convert, in the array's order; and whether an element is a list of two values of which one
  does not convert.
\<close>

fun valid_pairs :: "'f lib \<Rightarrow> 'f pyval list \<Rightarrow> 'f coord list" where
  "valid_pairs L [] = []"
| "valid_pairs L (v # vs) =
     (case json_pair L v of
        Some (Inr c) \<Rightarrow> c # valid_pairs L vs
      | other \<Rightarrow> valid_pairs L vs)"

definition pair_raises :: "'f lib \<Rightarrow> 'f pyval \<Rightarrow> bool" where
  "pair_raises L v = (case json_pair L v of Some (Inl e) \<Rightarrow> True | other \<Rightarrow> False)"

fun is_list :: "'f pyval \<Rightarrow> bool" where
  "is_list (PList vs) = True"
| "is_list v = False"

fun is_two_list :: "'f pyval \<Rightarrow> bool" where
  "is_two_list (PList [a, b]) = True"
| "is_two_list v = False"

text \<open>
  The same for the rows of a sheet: the coordinates of the rows whose first two cells are
  there, are not \<^verbatim>\<open>None\<close> and convert; and whether a row makes the loop raise.
\<close>

fun row_coords :: "'f lib \<Rightarrow> 'f pyval list list \<Rightarrow> 'f coord list" where
  "row_coords L [] = []"
| "row_coords L (row # rows) =
     (case excel_row L row of
        Inr (Some c) \<Rightarrow> c # row_coords L rows
      | other \<Rightarrow> row_coords L rows)"

definition row_raises :: "'f lib \<Rightarrow> 'f pyval list \<Rightarrow> bool" where
  "row_raises L row = isl (excel_row L row)"

text \<open>
  The rows of a sheet up to the row that gives the \<open>k\<close>-th coordinate (all of them when
  there are fewer coordinates).
\<close>

fun rows_until :: "'f lib \<Rightarrow> nat \<Rightarrow> 'f pyval list list \<Rightarrow> 'f pyval list list" where
  "rows_until L k [] = []"
| "rows_until L k (row # rows) =
     (if k = 0 then []
      else row # rows_until L (case excel_row L row of Inr (Some c) \<Rightarrow> k - 1 | other \<Rightarrow> k) rows)"

text \<open>
  Whether a page of an opened document fails, the images of the pages that render, and the
  images a report carries.
\<close>

fun page_fails :: "page \<Rightarrow> bool" where
  "page_fails (Page (Inr img)) = False"
| "page_fails p = True"

fun page_images :: "page list \<Rightarrow> bytes list" where
  "page_images [] = []"
| "page_images (Page (Inr img) # doc) = img # page_images doc"
| "page_images (p # doc) = page_images doc"

fun pictures :: "block list \<Rightarrow> bytes list" where
  "pictures [] = []"
| "pictures (Picture img w # bs) = img # pictures bs"
| "pictures (b # bs) = pictures bs"

fun is_ValueError :: "exn \<Rightarrow> bool" where
  "is_ValueError (ValueError m) = True"
| "is_ValueError e = False"

section \<open>One behaviour of the libraries, to run the model on\<close>

text \<open>
  \<open>demo_lib\<close> fixes what the libraries answer, with floats read as the real numbers they
  stand for. Its tables hold the inputs of the examples below: the text of a JSON payload with
  the value \<^verbatim>\<open>json.loads\<close> decodes it to, and names that stand for the bytes of a
  workbook or a PDF with what openpyxl and PyMuPDF find in them. A password-protected PDF is
  opened by PyMuPDF without an exception; fetching a page of it raises
  \<^verbatim>\<open>ValueError("document closed or encrypted")\<close>. The rounding of
  \<^verbatim>\<open>np.polyfit\<close> does not show in the real numbers, so its table is empty and no
  example below draws more than one point.
\<close>

definition demo_float_of_str :: "string \<Rightarrow> exn + real" where
  "demo_float_of_str s =
     (if s = ''3.5'' then Inr (7 / 2)
      else Inl (ValueError (''could not convert string to float: '' @ [CHR 0x27] @ s @ [CHR 0x27])))"

definition demo_long_array :: "real pyval list" where
  "demo_long_array =
     [PList [PInt 0, PInt 0], PInt 1, PList [PInt 1, PInt 1], PList [PInt 2, PInt 2],
      PList [PInt 3, PInt 3], PList [PInt 4, PInt 4], PList [PInt 5, PInt 5],
      PList [PInt 6, PInt 6], PList [PInt 7, PInt 7], PList [PInt 8, PInt 8],
      PList [PInt 9, PInt 9], PList [PInt 10, PInt 10], PList [PInt 11, PInt 11]]"

definition demo_json_loads :: "string \<Rightarrow> exn + real pyval" where
  \<open>demo_json_loads s =
     (if s = ''[[1, 2], [null, 3]]'' then
        Inr (PList [PList [PInt 1, PInt 2], PList [PNone, PInt 3]])
      else if s = ''[["x", 1], [2, 3]]'' then
        Inr (PList [PList [PStr ''x'', PInt 1], PList [PInt 2, PInt 3]])
      else if s = ''[["3.5", true]]'' then
        Inr (PList [PList [PStr ''3.5'', PBool True]])
      else if s = ''[[1, 2], 5, [3], {"a": 1}, [4, 5]]'' then
        Inr (PList [PList [PInt 1, PInt 2], PInt 5, PList [PInt 3],
                    PDict [(''a'', PInt 1)], PList [PInt 4, PInt 5]])
      else if s = ''[[1, 2], [4, 5]]'' then
        Inr (PList [PList [PInt 1, PInt 2], PList [PInt 4, PInt 5]])
      else if s = ''[7, [1, 2, 3], "p"]'' then
        Inr (PList [PInt 7, PList [PInt 1, PInt 2, PInt 3], PStr ''p''])
      else if s = ''[]'' then Inr (PList [])
      else if s = ''{"x": 1}'' then Inr (PDict [(''x'', PInt 1)])
      else if s = ''[[5, 5]]'' then Inr (PList [PList [PInt 5, PInt 5]])
      else if s = ''[[0, 0], 1, [1, 1], [2, 2], [3, 3], [4, 4], [5, 5], [6, 6], [7, 7], [8, 8], [9, 9], [10, 10], [11, 11]]'' then
        Inr (PList demo_long_array)
      else Inl (ValueError ''Expecting value: line 1 column 1 (char 0)''))\<close>

definition demo_load_workbook :: "bytes \<Rightarrow> exn + real pyval list list" where
  "demo_load_workbook f =
     (if f = ''xlsx: two points'' then
        Inr [[PInt 1, PFloat (5 / 2)], [PNone, PNone], [PInt 3, PInt 4, PStr ''note'']]
      else if f = ''xlsx: text cell'' then
        Inr [[PStr ''abc'', PInt 1]]
      else if f = ''xlsx: twelve points'' then
        Inr [[PInt 1, PInt 1], [PNone, PInt 0], [PInt 2, PInt 2], [PInt 3, PInt 3],
             [PInt 4, PInt 4], [PInt 5, PInt 5], [PInt 6, PInt 6], [PInt 7, PInt 7],
             [PInt 8, PInt 8], [PInt 9, PInt 9], [PInt 10, PInt 10], [PStr ''total'', PInt 55],
             [PInt 11, PInt 11], [PInt 12, PInt 12]]
      else if f = ''xlsx: twelve points, other tail'' then
        Inr [[PInt 1, PInt 1], [PNone, PInt 0], [PInt 2, PInt 2], [PInt 3, PInt 3],
             [PInt 4, PInt 4], [PInt 5, PInt 5], [PInt 6, PInt 6], [PInt 7, PInt 7],
             [PInt 8, PInt 8], [PInt 9, PInt 9], [PInt 10, PInt 10]]
      else if f = ''xlsx: header only'' then Inr []
      else if f = ''xlsx: blank cells'' then Inr [[PNone, PInt 1], [PInt 2, PNone]]
      else Inl (OtherException ''File is not a zip file''))"

definition demo_fitz_open :: "bytes \<Rightarrow> exn + page list" where
  "demo_fitz_open b =
     (if b = ''pdf: three pages'' then
        Inr [Page (Inr ''png 1''), Page (Inr ''png 2''), Page (Inr ''png 3'')]
      else if b = ''pdf: second page fails'' then
        Inr [Page (Inr ''png 1''), Page (Inl (OtherException ''bad image'')),
             Page (Inr ''png 3'')]
      else if b = ''pdf: locked'' then
        Inr [PageLoadError (ValueError ''document closed or encrypted'')]
      else Inl (RuntimeError ''cannot open broken document''))"

text \<open>\<^verbatim>\<open>format(x, ".3f")\<close> of a real number.\<close>

definition round_half_even :: "real \<Rightarrow> int" where
  "round_half_even y =
     (let f = \<lfloor>y\<rfloor>; r = y - of_int f
      in if r < 1 / 2 then f else if 1 / 2 < r then f + 1 else if even f then f else f + 1)"

definition demo_format_3f :: "real \<Rightarrow> string" where
  "demo_format_3f x =
     (let m = nat \<bar>round_half_even (x * 1000)\<bar>; frac = m mod 1000
      in (if x < 0 then ''-'' else []) @ str_nat (m div 1000) @ ''.'' @
         [''0123456789'' ! (frac div 100), ''0123456789'' ! (frac div 10 mod 10),
          ''0123456789'' ! (frac mod 10)])"

text \<open>
  The document library refuses a paragraph with a control character, as lxml does, with a
  \<^verbatim>\<open>ValueError\<close>.
\<close>

definition demo_docx_save :: "block list \<Rightarrow> exn + bytes" where
  "demo_docx_save blocks =
     (if Paragraph [CHR 0x01] \<in> set blocks then
        Inl (ValueError (''All strings must be XML compatible: Unicode or ASCII, '' @
                         ''no NULL bytes or control characters''))
      else Inr ''docx report'')"

definition demo_lib :: "real lib" where
  "demo_lib =
     \<lparr> float_of_bool = (\<lambda>b. if b then 1 else 0),
       float_of_int = (\<lambda>n. Inr (real_of_int n)),
       float_of_str = demo_float_of_str,
       py_sorted = sort_key fst,
       json_loads = demo_json_loads,
       load_workbook = demo_load_workbook,
       fitz_open = demo_fitz_open,
       polyfit = (\<lambda>xs ys. Inl (OtherException ''polyfit: no entry'')),
       polyval = (\<lambda>p xs. map (\<lambda>x. fst p * x + snd p) xs),
       format_3f = demo_format_3f,
       savefig = (\<lambda>artists. Inr ''png chart''),
       docx_save = demo_docx_save \<rparr>"

section \<open>Properties\<close>

lemmas demo_simps =
  demo_lib_def demo_json_loads_def demo_float_of_str_def demo_load_workbook_def
  demo_fitz_open_def

subsection \<open>The JSON extractor\<close>

lemma is_two_list_iff: "is_two_list v \<longleftrightarrow> json_pair L v \<noteq> None"
  by (induction L v rule: json_pair.induct) simp_all

lemma json_pairs_skip: "json_pairs L (filter is_two_list data) acc = json_pairs L data acc"
  by (induction data arbitrary: acc)
     (auto simp: is_two_list_iff [where L = L] split: option.splits sum.splits)

lemma json_pairs_ok:
  "\<not> list_ex (pair_raises L) data \<Longrightarrow> json_pairs L data acc = Inr (acc @ valid_pairs L data)"
  by (induction data arbitrary: acc) (auto simp: pair_raises_def split: option.splits sum.splits)

lemma json_pairs_raises: "list_ex (pair_raises L) data \<Longrightarrow> isl (json_pairs L data acc)"
  by (induction data arbitrary: acc) (auto simp: pair_raises_def split: option.splits sum.splits)

lemma valid_pairs_Nil_iff:
  "\<not> list_ex (pair_raises L) data \<Longrightarrow>
     valid_pairs L data = [] \<longleftrightarrow> \<not> list_ex is_two_list data"
  by (induction data)
     (auto simp: pair_raises_def is_two_list_iff [where L = L] split: option.splits sum.splits)

text \<open>
  Claim C10. The extractor hands the two elements of a 2-element array to \<^verbatim>\<open>float\<close>
  and checks nothing else about them: whenever both convert, the pair is accepted, whatever
  the JSON types. A boolean always converts, and a string converts when \<^verbatim>\<open>float\<close>
  parses it, so a payload such as \<^verbatim>\<open>[["3.5", true]]\<close>, which is no array of numeric
  pairs, is extracted and not refused.
\<close>

theorem float_coercible_values_accepted:
  assumes "json_loads L s = Inr (PList [PList [a, b]])"
    and "py_float L a = Inr x"
    and "py_float L b = Inr y"
  shows "parse_coords_json L s = Inr [(x, y)] \<and>
         py_float L (PBool c) = Inr (float_of_bool L c) \<and>
         py_float L (PStr t) = float_of_str L t"
  using assms by (simp add: parse_coords_json_def parse_coords_json_try_def)

theorem float_coercible_values_accepted_witness:
  \<open>json_loads demo_lib ''[["3.5", true]]'' = Inr (PList [PList [PStr ''3.5'', PBool True]]) \<and>
   py_float demo_lib (PStr ''3.5'') = Inr (7 / 2) \<and>
   py_float demo_lib (PBool True) = Inr 1 \<and>
   parse_coords_json demo_lib ''[["3.5", true]]'' = Inr [(7 / 2, 1)]\<close>
proof -
  have l: \<open>json_loads demo_lib ''[["3.5", true]]'' =
           Inr (PList [PList [PStr ''3.5'', PBool True]])\<close>
    by (simp add: demo_simps)
  have a: "py_float demo_lib (PStr ''3.5'') = Inr (7 / 2)"
    by (simp add: demo_simps)
  have b: "py_float demo_lib (PBool True) = Inr 1"
    by (simp add: demo_simps)
  from float_coercible_values_accepted [OF l a b] l a b show ?thesis by simp
qed

lemma parse_json_not_list:
  "json_loads L s = Inr v \<Longrightarrow> \<not> is_list v \<Longrightarrow>
     parse_coords_json L s = Inl (ValueError (msg_bad_coords @ msg_not_a_list))"
  by (cases v) (simp_all add: parse_coords_json_def parse_coords_json_try_def)

lemma parse_json_raises:
  assumes "json_loads L s = Inr (PList data)" and "list_ex (pair_raises L) data"
  shows "\<exists>m. parse_coords_json L s = Inl (ValueError m)"
proof -
  from json_pairs_raises [OF assms(2), of "[]"]
  obtain e where "json_pairs L data [] = Inl e"
    by (cases "json_pairs L data []") auto
  with assms(1) show ?thesis
    by (simp add: parse_coords_json_def parse_coords_json_try_def)
qed

lemma parse_json_ok:
  assumes "json_loads L s = Inr (PList data)" and "\<not> list_ex (pair_raises L) data"
  shows "parse_coords_json L s =
           (if valid_pairs L data = [] then Inl (ValueError (msg_bad_coords @ msg_coords_empty))
            else Inr (take 10 (valid_pairs L data)))"
  using assms by (simp add: parse_coords_json_def parse_coords_json_try_def json_pairs_ok)

text \<open>
  Claim C1, as amended. For every payload that decodes to a JSON array in which every
  2-element array holds two values that \<^verbatim>\<open>float\<close> converts, and which has at least one
  such array, the extractor returns the first ten of these pairs in the order of the array:
  a sequence of length \<open>min valid_pair_count 10\<close>, cut off and not sampled.

  As the claim stands, one valid pair is enough for it to promise a result. That fails: in
  \<^verbatim>\<open>[[1, 2], [null, 3]]\<close> the second element passes the test of line 49,
  \<^verbatim>\<open>float(None)\<close> raises, and line 57 turns this into the refusal of the whole payload.
\<close>

theorem json_first_ten_valid_pairs:
  assumes "json_loads L s = Inr (PList data)"
    and "\<not> list_ex (pair_raises L) data"
    and "valid_pairs L data \<noteq> []"
  shows "parse_coords_json L s = Inr (take 10 (valid_pairs L data)) \<and>
         length (take 10 (valid_pairs L data)) = min (length (valid_pairs L data)) 10"
  using assms by (simp add: parse_json_ok)

theorem json_first_ten_valid_pairs_witness:
  "\<not> list_ex (pair_raises demo_lib) demo_long_array \<and>
   valid_pairs demo_lib demo_long_array =
     [(0, 0), (1, 1), (2, 2), (3, 3), (4, 4), (5, 5), (6, 6), (7, 7), (8, 8), (9, 9),
      (10, 10), (11, 11)] \<and>
   parse_coords_json demo_lib
     ''[[0, 0], 1, [1, 1], [2, 2], [3, 3], [4, 4], [5, 5], [6, 6], [7, 7], [8, 8], [9, 9], [10, 10], [11, 11]]'' =
     Inr [(0, 0), (1, 1), (2, 2), (3, 3), (4, 4), (5, 5), (6, 6), (7, 7), (8, 8), (9, 9)]"
proof -
  have l: "json_loads demo_lib
     ''[[0, 0], 1, [1, 1], [2, 2], [3, 3], [4, 4], [5, 5], [6, 6], [7, 7], [8, 8], [9, 9], [10, 10], [11, 11]]'' =
     Inr (PList demo_long_array)"
    by (simp add: demo_simps)
  have r: "\<not> list_ex (pair_raises demo_lib) demo_long_array"
    by (simp add: demo_long_array_def pair_raises_def demo_lib_def)
  have v: "valid_pairs demo_lib demo_long_array =
     [(0, 0), (1, 1), (2, 2), (3, 3), (4, 4), (5, 5), (6, 6), (7, 7), (8, 8), (9, 9),
      (10, 10), (11, 11)]"
    by (simp add: demo_long_array_def demo_lib_def)
  have n: "valid_pairs demo_lib demo_long_array \<noteq> []"
    by (simp add: v)
  from json_first_ten_valid_pairs [OF l r n] r v show ?thesis by simp
qed

theorem json_valid_pair_beside_raising_pair_counterexample:
  "json_loads demo_lib ''[[1, 2], [null, 3]]'' =
     Inr (PList [PList [PInt 1, PInt 2], PList [PNone, PInt 3]]) \<and>
   valid_pairs demo_lib [PList [PInt 1, PInt 2], PList [PNone, PInt 3]] = [(1, 2)] \<and>
   parse_coords_json demo_lib ''[[1, 2], [null, 3]]'' =
     Inl (ValueError (msg_bad_coords @ str_exn (float_type_error ''NoneType'')))"
  by (simp add: parse_coords_json_def parse_coords_json_try_def demo_simps)

text \<open>
  Claim C2, as amended. For every payload that decodes to a JSON array, the elements that are
  not 2-element arrays are passed over in silence and the pairs that remain are returned. A
  2-element array with a value that \<^verbatim>\<open>float\<close> does not convert is not passed over: it
  makes the extractor refuse the whole payload with the \<^verbatim>\<open>ValueError\<close> of line 58.
  The payload is refused with that error also when it does not decode, when it is not an
  array, and when it holds no 2-element array, in which case the error is the one of the
  empty array.

  As the claim stands, it counts an element whose values do not convert among the skipped
  ones. That fails: for \<^verbatim>\<open>[["x", 1], [2, 3]]\<close> the pair \<^verbatim>\<open>[2, 3]\<close> is not
  returned, the payload is refused.
\<close>

theorem json_skips_only_non_pairs:
  "(json_loads L s = Inl e \<longrightarrow>
      parse_coords_json L s = Inl (ValueError (msg_bad_coords @ str_exn e))) \<and>
   (json_loads L s = Inr v \<and> \<not> is_list v \<longrightarrow>
      parse_coords_json L s = Inl (ValueError (msg_bad_coords @ msg_not_a_list))) \<and>
   (json_loads L s = Inr (PList data) \<longrightarrow>
      (json_loads L s' = Inr (PList (filter is_two_list data)) \<longrightarrow>
         parse_coords_json L s' = parse_coords_json L s) \<and>
      (list_ex (pair_raises L) data \<longrightarrow> (\<exists>m. parse_coords_json L s = Inl (ValueError m))) \<and>
      (\<not> list_ex is_two_list data \<longrightarrow>
         parse_coords_json L s = Inl (ValueError (msg_bad_coords @ msg_coords_empty))) \<and>
      (\<not> list_ex (pair_raises L) data \<and> list_ex is_two_list data \<longrightarrow>
         parse_coords_json L s = Inr (take 10 (valid_pairs L data))))"
proof (intro conjI impI)
  assume "json_loads L s = Inl e"
  then show "parse_coords_json L s = Inl (ValueError (msg_bad_coords @ str_exn e))"
    by (simp add: parse_coords_json_def parse_coords_json_try_def)
next
  assume "json_loads L s = Inr v \<and> \<not> is_list v"
  then show "parse_coords_json L s = Inl (ValueError (msg_bad_coords @ msg_not_a_list))"
    by (simp add: parse_json_not_list)
next
  assume "json_loads L s = Inr (PList data)"
    and "json_loads L s' = Inr (PList (filter is_two_list data))"
  then show "parse_coords_json L s' = parse_coords_json L s"
    by (simp add: parse_coords_json_def parse_coords_json_try_def json_pairs_skip)
next
  assume "json_loads L s = Inr (PList data)" and "list_ex (pair_raises L) data"
  then show "\<exists>m. parse_coords_json L s = Inl (ValueError m)"
    by (rule parse_json_raises)
next
  assume l: "json_loads L s = Inr (PList data)" and n: "\<not> list_ex is_two_list data"
  have r: "\<not> list_ex (pair_raises L) data"
    using n by (auto simp: list_ex_iff pair_raises_def is_two_list_iff [where L = L]
        split: option.splits sum.splits)
  with n have "valid_pairs L data = []"
    by (simp add: valid_pairs_Nil_iff)
  with l r show "parse_coords_json L s = Inl (ValueError (msg_bad_coords @ msg_coords_empty))"
    by (simp add: parse_json_ok)
next
  assume l: "json_loads L s = Inr (PList data)"
    and h: "\<not> list_ex (pair_raises L) data \<and> list_ex is_two_list data"
  then have "valid_pairs L data \<noteq> []"
    by (simp add: valid_pairs_Nil_iff)
  with l h show "parse_coords_json L s = Inr (take 10 (valid_pairs L data))"
    by (simp add: parse_json_ok)
qed

theorem json_skips_only_non_pairs_witness:
  \<open>parse_coords_json demo_lib ''not json'' =
     Inl (ValueError (msg_bad_coords @ ''Expecting value: line 1 column 1 (char 0)'')) \<and>
   parse_coords_json demo_lib ''{"x": 1}'' =
     Inl (ValueError (msg_bad_coords @ msg_not_a_list)) \<and>
   parse_coords_json demo_lib ''[[1, 2], 5, [3], {"a": 1}, [4, 5]]'' = Inr [(1, 2), (4, 5)] \<and>
   parse_coords_json demo_lib ''[[1, 2], [4, 5]]'' =
     parse_coords_json demo_lib ''[[1, 2], 5, [3], {"a": 1}, [4, 5]]'' \<and>
   isl (parse_coords_json demo_lib ''[["x", 1], [2, 3]]'') \<and>
   parse_coords_json demo_lib ''[7, [1, 2, 3], "p"]'' =
     Inl (ValueError (msg_bad_coords @ msg_coords_empty)) \<and>
   parse_coords_json demo_lib ''[]'' =
     Inl (ValueError (msg_bad_coords @ msg_coords_empty))\<close>
proof -
  note inst = json_skips_only_non_pairs [where L = demo_lib]
  have 1: \<open>parse_coords_json demo_lib ''not json'' =
     Inl (ValueError (msg_bad_coords @ ''Expecting value: line 1 column 1 (char 0)''))\<close>
    using inst [of "''not json''" "ValueError ''Expecting value: line 1 column 1 (char 0)''"]
    by (simp add: demo_simps)
  have 2: \<open>parse_coords_json demo_lib ''{"x": 1}'' =
     Inl (ValueError (msg_bad_coords @ msg_not_a_list))\<close>
    using inst [of \<open>''{"x": 1}''\<close> _ "PDict [(''x'', PInt 1)]"]
    by (simp add: demo_simps)
  have 3: \<open>parse_coords_json demo_lib ''[[1, 2], 5, [3], {"a": 1}, [4, 5]]'' =
       Inr [(1, 2), (4, 5)] \<and>
     parse_coords_json demo_lib ''[[1, 2], [4, 5]]'' =
       parse_coords_json demo_lib ''[[1, 2], 5, [3], {"a": 1}, [4, 5]]''\<close>
    using inst [of \<open>''[[1, 2], 5, [3], {"a": 1}, [4, 5]]''\<close> _ _
        "[PList [PInt 1, PInt 2], PInt 5, PList [PInt 3], PDict [(''a'', PInt 1)],
          PList [PInt 4, PInt 5]]" "''[[1, 2], [4, 5]]''"]
    by (simp add: demo_simps pair_raises_def)
  have 4: \<open>isl (parse_coords_json demo_lib ''[["x", 1], [2, 3]]'')\<close>
  proof -
    have l: \<open>json_loads demo_lib ''[["x", 1], [2, 3]]'' =
              Inr (PList [PList [PStr ''x'', PInt 1], PList [PInt 2, PInt 3]])\<close>
      by (simp add: demo_simps)
    have r: "list_ex (pair_raises demo_lib)
               [PList [PStr ''x'', PInt 1], PList [PInt 2, PInt 3]]"
      by (simp add: pair_raises_def demo_lib_def demo_float_of_str_def)
    from inst [of \<open>''[["x", 1], [2, 3]]''\<close> _ _
          "[PList [PStr ''x'', PInt 1], PList [PInt 2, PInt 3]]"] l r
    obtain m where
      \<open>parse_coords_json demo_lib ''[["x", 1], [2, 3]]'' = Inl (ValueError m)\<close>
      by blast
    then show ?thesis by simp
  qed
  have 5: \<open>parse_coords_json demo_lib ''[7, [1, 2, 3], "p"]'' =
     Inl (ValueError (msg_bad_coords @ msg_coords_empty))\<close>
    using inst [of \<open>''[7, [1, 2, 3], "p"]''\<close> _ _ "[PInt 7, PList [PInt 1, PInt 2, PInt 3], PStr ''p'']"]
    by (simp add: demo_simps)
  have 6: \<open>parse_coords_json demo_lib ''[]'' =
     Inl (ValueError (msg_bad_coords @ msg_coords_empty))\<close>
    using inst [of "''[]''" _ _ "[]"]
    by (simp add: demo_simps)
  from 1 2 3 4 5 6 show ?thesis by simp
qed

theorem json_unconvertible_pair_not_skipped_counterexample:
  \<open>json_loads demo_lib ''[["x", 1], [2, 3]]'' =
     Inr (PList [PList [PStr ''x'', PInt 1], PList [PInt 2, PInt 3]]) \<and>
   json_pair demo_lib (PList [PInt 2, PInt 3]) = Some (Inr (2, 3)) \<and>
   parse_coords_json demo_lib ''[["x", 1], [2, 3]]'' =
     Inl (ValueError (msg_bad_coords @ ''could not convert string to float: '' @
                      [CHR 0x27] @ ''x'' @ [CHR 0x27]))\<close>
  by (simp add: parse_coords_json_def parse_coords_json_try_def demo_simps)

subsection \<open>The spreadsheet extractor\<close>

lemma rows_until_0 [simp]: "rows_until L 0 rows = []"
  by (cases rows) simp_all

lemma excel_rows_ok:
  "length acc < 10 \<Longrightarrow> \<not> list_ex (row_raises L) (rows_until L (10 - length acc) rows) \<Longrightarrow>
     excel_rows L rows acc = Inr (take 10 (acc @ row_coords L rows))"
proof (induction rows arbitrary: acc)
  case Nil
  then show ?case by simp
next
  case (Cons row rows)
  from Cons.prems have k: "10 - length acc \<noteq> 0" by simp
  show ?case
  proof (cases "excel_row L row")
    case (Inl e)
    with Cons.prems k show ?thesis by (simp add: row_raises_def)
  next
    case (Inr r)
    show ?thesis
    proof (cases r)
      case None
      with Inr Cons.prems k Cons.IH [of acc] show ?thesis by simp
    next
      case (Some c)
      show ?thesis
      proof (cases "length (acc @ [c]) \<ge> 10")
        case True
        with Cons.prems have "length acc = 9" by simp
        with Inr Some True show ?thesis by simp
      next
        case False
        then have l: "length (acc @ [c]) < 10" by simp
        have "10 - length (acc @ [c]) = 10 - length acc - 1" by simp
        with Cons.prems k Inr Some
        have "\<not> list_ex (row_raises L) (rows_until L (10 - length (acc @ [c])) rows)"
          by simp
        from Cons.IH [OF l this] Inr Some False show ?thesis by simp
      qed
    qed
  qed
qed

lemma excel_rows_raises:
  "length acc < 10 \<Longrightarrow> list_ex (row_raises L) (rows_until L (10 - length acc) rows) \<Longrightarrow>
     isl (excel_rows L rows acc)"
proof (induction rows arbitrary: acc)
  case Nil
  then show ?case by simp
next
  case (Cons row rows)
  from Cons.prems have k: "10 - length acc \<noteq> 0" by simp
  show ?case
  proof (cases "excel_row L row")
    case (Inl e)
    then show ?thesis by simp
  next
    case (Inr r)
    then have nr: "\<not> row_raises L row" by (simp add: row_raises_def)
    show ?thesis
    proof (cases r)
      case None
      with Inr nr Cons.prems k Cons.IH [of acc] show ?thesis by simp
    next
      case (Some c)
      show ?thesis
      proof (cases "length (acc @ [c]) \<ge> 10")
        case True
        with Cons.prems have "length acc = 9" by simp
        with Inr Some nr Cons.prems show ?thesis by simp
      next
        case False
        then have l: "length (acc @ [c]) < 10" by simp
        have "10 - length (acc @ [c]) = 10 - length acc - 1" by simp
        with Cons.prems k Inr Some nr
        have "list_ex (row_raises L) (rows_until L (10 - length (acc @ [c])) rows)"
          by simp
        from Cons.IH [OF l this] Inr Some False show ?thesis by simp
      qed
    qed
  qed
qed

lemma excel_rows_until:
  "length acc < 10 \<Longrightarrow>
     excel_rows L (rows_until L (10 - length acc) rows) acc = excel_rows L rows acc"
proof (induction rows arbitrary: acc)
  case Nil
  then show ?case by simp
next
  case (Cons row rows)
  from Cons.prems have k: "10 - length acc \<noteq> 0" by simp
  show ?case
  proof (cases "excel_row L row")
    case (Inl e)
    with k show ?thesis by simp
  next
    case (Inr r)
    show ?thesis
    proof (cases r)
      case None
      with Inr Cons.prems k Cons.IH [of acc] show ?thesis by simp
    next
      case (Some c)
      show ?thesis
      proof (cases "length (acc @ [c]) \<ge> 10")
        case True
        with Inr Some k show ?thesis by simp
      next
        case False
        then have l: "length (acc @ [c]) < 10" by simp
        have "10 - length (acc @ [c]) = 10 - length acc - 1" by simp
        with Cons.IH [OF l] Inr Some False k show ?thesis by simp
      qed
    qed
  qed
qed

lemma excel_row_Some_iff:
  "excel_row L row = Inr (Some (fx, fy)) \<longleftrightarrow>
     (\<exists>x y rest. row = x # y # rest \<and> x \<noteq> PNone \<and> y \<noteq> PNone \<and>
        py_float L x = Inr fx \<and> py_float L y = Inr fy)"
proof (cases row)
  case Nil
  then show ?thesis by (simp add: excel_row_def)
next
  case (Cons x r1)
  show ?thesis
  proof (cases r1)
    case Nil
    with Cons show ?thesis by (simp add: excel_row_def)
  next
    case (Cons y rest)
    with \<open>row = x # r1\<close> show ?thesis
      by (auto simp: excel_row_def split: sum.splits)
  qed
qed

lemma excel_row_None_iff:
  "excel_row L row = Inr None \<longleftrightarrow>
     (\<exists>x y rest. row = x # y # rest \<and> (x = PNone \<or> y = PNone))"
proof (cases row)
  case Nil
  then show ?thesis by (simp add: excel_row_def)
next
  case (Cons x r1)
  show ?thesis
  proof (cases r1)
    case Nil
    with Cons show ?thesis by (simp add: excel_row_def)
  next
    case (Cons y rest)
    with \<open>row = x # r1\<close> show ?thesis
      by (auto simp: excel_row_def split: sum.splits)
  qed
qed

lemma parse_excel_ok:
  assumes "load_workbook L f = Inr rows"
    and "\<not> list_ex (row_raises L) (rows_until L 10 rows)"
  shows "parse_coords_excel L f =
           (if row_coords L rows = [] then Inl (ValueError (msg_excel_error @ msg_excel_empty))
            else Inr (take 10 (row_coords L rows)))"
  using assms excel_rows_ok [of "[]" L rows]
  by (simp add: parse_coords_excel_def parse_coords_excel_try_def)

lemma parse_excel_raises:
  assumes "load_workbook L f = Inr rows"
    and "list_ex (row_raises L) (rows_until L 10 rows)"
  shows "\<exists>m. parse_coords_excel L f = Inl (ValueError m)"
proof -
  from excel_rows_raises [of "[]" L rows] assms(2)
  obtain e where "excel_rows L rows [] = Inl e"
    by (cases "excel_rows L rows []") auto
  with assms(1) show ?thesis
    by (simp add: parse_coords_excel_def parse_coords_excel_try_def)
qed

lemma parse_excel_until:
  assumes "load_workbook L f = Inr rows" and "load_workbook L f' = Inr rows'"
    and "rows_until L 10 rows' = rows_until L 10 rows"
  shows "parse_coords_excel L f' = parse_coords_excel L f"
proof -
  have "excel_rows L rows' [] = excel_rows L (rows_until L 10 rows') []"
    using excel_rows_until [of "[]" L rows'] by simp
  also have "\<dots> = excel_rows L rows []"
    using excel_rows_until [of "[]" L rows] assms(3) by simp
  finally show ?thesis
    using assms(1,2) by (simp add: parse_coords_excel_def parse_coords_excel_try_def)
qed

text \<open>
  Claim C3, as amended. The extractor takes the rows of the active sheet from row 2 on, in
  file order. A row whose first two cells are both not \<^verbatim>\<open>None\<close> is handed to
  \<^verbatim>\<open>float\<close>, cell by cell, and gives a coordinate when both cells convert; a row with
  a \<^verbatim>\<open>None\<close> among the two is passed over. The loop stops at the tenth coordinate:
  the result does not depend on any row after the one that gave it. The extraction fails with
  the \<^verbatim>\<open>ValueError\<close> of line 91 when the workbook does not load, when no row gives
  a coordinate, and also when a row that is read has fewer than two cells or a cell that is
  not \<^verbatim>\<open>None\<close> and does not convert. With \<open>N \<ge> 1\<close> rows that give a coordinate, and
  no failing row up to the tenth of them, the result is the first \<open>min N 10\<close> of these
  coordinates.

  As the claim stands, a row gives a coordinate whenever its two cells are not
  \<^verbatim>\<open>None\<close>. That fails for a sheet whose only data row is \<^verbatim>\<open>("abc", 1)\<close>:
  \<^verbatim>\<open>float("abc")\<close> raises and the extraction is refused.
\<close>

theorem excel_first_ten_rows:
  "(load_workbook L f = Inl e \<longrightarrow>
      parse_coords_excel L f = Inl (ValueError (msg_excel_error @ str_exn e))) \<and>
   (load_workbook L f = Inr rows \<longrightarrow>
      (\<not> list_ex (row_raises L) (rows_until L 10 rows) \<and> row_coords L rows \<noteq> [] \<longrightarrow>
         parse_coords_excel L f = Inr (take 10 (row_coords L rows)) \<and>
         length (take 10 (row_coords L rows)) = min (length (row_coords L rows)) 10) \<and>
      (\<not> list_ex (row_raises L) (rows_until L 10 rows) \<and> row_coords L rows = [] \<longrightarrow>
         parse_coords_excel L f = Inl (ValueError (msg_excel_error @ msg_excel_empty))) \<and>
      (list_ex (row_raises L) (rows_until L 10 rows) \<longrightarrow>
         (\<exists>m. parse_coords_excel L f = Inl (ValueError m))) \<and>
      (load_workbook L f' = Inr rows' \<and> rows_until L 10 rows' = rows_until L 10 rows \<longrightarrow>
         parse_coords_excel L f' = parse_coords_excel L f)) \<and>
   (excel_row L row = Inr (Some (fx, fy)) \<longleftrightarrow>
      (\<exists>x y rest. row = x # y # rest \<and> x \<noteq> PNone \<and> y \<noteq> PNone \<and>
         py_float L x = Inr fx \<and> py_float L y = Inr fy)) \<and>
   (excel_row L row = Inr None \<longleftrightarrow>
      (\<exists>x y rest. row = x # y # rest \<and> (x = PNone \<or> y = PNone)))"
proof (intro conjI impI)
  assume "load_workbook L f = Inl e"
  then show "parse_coords_excel L f = Inl (ValueError (msg_excel_error @ str_exn e))"
    by (simp add: parse_coords_excel_def parse_coords_excel_try_def)
next
  assume "load_workbook L f = Inr rows"
    and "\<not> list_ex (row_raises L) (rows_until L 10 rows) \<and> row_coords L rows \<noteq> []"
  then show "parse_coords_excel L f = Inr (take 10 (row_coords L rows))"
    by (simp add: parse_excel_ok)
next
  show "length (take 10 (row_coords L rows)) = min (length (row_coords L rows)) 10"
    by simp
next
  assume "load_workbook L f = Inr rows"
    and "\<not> list_ex (row_raises L) (rows_until L 10 rows) \<and> row_coords L rows = []"
  then show "parse_coords_excel L f = Inl (ValueError (msg_excel_error @ msg_excel_empty))"
    by (simp add: parse_excel_ok)
next
  assume "load_workbook L f = Inr rows" and "list_ex (row_raises L) (rows_until L 10 rows)"
  then show "\<exists>m. parse_coords_excel L f = Inl (ValueError m)"
    by (rule parse_excel_raises)
next
  assume a: "load_workbook L f = Inr rows"
    and b: "load_workbook L f' = Inr rows' \<and> rows_until L 10 rows' = rows_until L 10 rows"
  from parse_excel_until [OF a conjunct1 [OF b] conjunct2 [OF b]]
  show "parse_coords_excel L f' = parse_coords_excel L f" .
next
  show "excel_row L row = Inr (Some (fx, fy)) \<longleftrightarrow>
      (\<exists>x y rest. row = x # y # rest \<and> x \<noteq> PNone \<and> y \<noteq> PNone \<and>
         py_float L x = Inr fx \<and> py_float L y = Inr fy)"
    by (rule excel_row_Some_iff)
next
  show "excel_row L row = Inr None \<longleftrightarrow>
      (\<exists>x y rest. row = x # y # rest \<and> (x = PNone \<or> y = PNone))"
    by (rule excel_row_None_iff)
qed

theorem excel_first_ten_rows_witness:
  "parse_coords_excel demo_lib ''not a workbook'' =
     Inl (ValueError (msg_excel_error @ ''File is not a zip file'')) \<and>
   parse_coords_excel demo_lib ''xlsx: twelve points'' =
     Inr [(1, 1), (2, 2), (3, 3), (4, 4), (5, 5), (6, 6), (7, 7), (8, 8), (9, 9), (10, 10)] \<and>
   parse_coords_excel demo_lib ''xlsx: twelve points, other tail'' =
     parse_coords_excel demo_lib ''xlsx: twelve points'' \<and>
   parse_coords_excel demo_lib ''xlsx: blank cells'' =
     Inl (ValueError (msg_excel_error @ msg_excel_empty)) \<and>
   isl (parse_coords_excel demo_lib ''xlsx: text cell'') \<and>
   excel_row demo_lib [PInt 3, PInt 4, PStr ''note''] = Inr (Some (3, 4)) \<and>
   excel_row demo_lib [PNone, PInt 0] = Inr None"
proof -
  note inst = excel_first_ten_rows [where L = demo_lib]
  let ?head = "[[PInt 1, PInt 1], [PNone, PInt 0], [PInt 2, PInt 2], [PInt 3, PInt 3],
             [PInt 4, PInt 4], [PInt 5, PInt 5], [PInt 6, PInt 6], [PInt 7, PInt 7],
             [PInt 8, PInt 8], [PInt 9, PInt 9], [PInt 10, PInt 10]] :: real pyval list list"
  let ?rows = "?head @ [[PStr ''total'', PInt 55], [PInt 11, PInt 11], [PInt 12, PInt 12]]"
  have row [simp]: "\<And>n m. excel_row demo_lib [PInt n, PInt m] = Inr (Some (real_of_int n, real_of_int m))"
    "\<And>m. excel_row demo_lib [PNone, PInt m] = Inr None"
    "\<And>n. excel_row demo_lib [PInt n, PNone] = Inr None"
    "\<And>s m. s \<noteq> ''3.5'' \<Longrightarrow> isl (excel_row demo_lib [PStr s, PInt m])"
    by (simp_all add: excel_row_def demo_lib_def demo_float_of_str_def)
  have 1: "parse_coords_excel demo_lib ''not a workbook'' =
     Inl (ValueError (msg_excel_error @ ''File is not a zip file''))"
    using inst [of "''not a workbook''" "OtherException ''File is not a zip file''"]
    by (simp add: demo_lib_def demo_load_workbook_def)
  have l12: "load_workbook demo_lib ''xlsx: twelve points'' = Inr ?rows"
    by (simp add: demo_lib_def demo_load_workbook_def)
  have l12': "load_workbook demo_lib ''xlsx: twelve points, other tail'' = Inr ?head"
    by (simp add: demo_lib_def demo_load_workbook_def)
  have u12: "rows_until demo_lib 10 ?rows = ?head"
    by simp
  have u12': "rows_until demo_lib 10 ?head = ?head"
    by simp
  have n12: "\<not> list_ex (row_raises demo_lib) ?head"
    by (simp add: row_raises_def)
  have c12: "row_coords demo_lib ?rows =
     [(1, 1), (2, 2), (3, 3), (4, 4), (5, 5), (6, 6), (7, 7), (8, 8), (9, 9), (10, 10),
      (11, 11), (12, 12)]"
    by (simp add: excel_row_def demo_lib_def demo_float_of_str_def)
  have 2: "parse_coords_excel demo_lib ''xlsx: twelve points'' =
     Inr [(1, 1), (2, 2), (3, 3), (4, 4), (5, 5), (6, 6), (7, 7), (8, 8), (9, 9), (10, 10)]"
    using inst [of "''xlsx: twelve points''" _ ?rows] l12 n12 c12 unfolding u12 by simp
  have 3: "parse_coords_excel demo_lib ''xlsx: twelve points, other tail'' =
     parse_coords_excel demo_lib ''xlsx: twelve points''"
    using inst [of "''xlsx: twelve points''" _ ?rows "''xlsx: twelve points, other tail''" ?head]
      l12 l12' unfolding u12 u12' by blast
  have 4: "parse_coords_excel demo_lib ''xlsx: blank cells'' =
     Inl (ValueError (msg_excel_error @ msg_excel_empty))"
  proof -
    have "load_workbook demo_lib ''xlsx: blank cells'' = Inr [[PNone, PInt 1], [PInt 2, PNone]]"
      by (simp add: demo_lib_def demo_load_workbook_def)
    with inst [of "''xlsx: blank cells''" _ "[[PNone, PInt 1], [PInt 2, PNone]]"]
    show ?thesis by (simp add: row_raises_def)
  qed
  have 5: "isl (parse_coords_excel demo_lib ''xlsx: text cell'')"
  proof -
    have "load_workbook demo_lib ''xlsx: text cell'' = Inr [[PStr ''abc'', PInt 1]]"
      by (simp add: demo_lib_def demo_load_workbook_def)
    moreover have "list_ex (row_raises demo_lib) (rows_until demo_lib 10 [[PStr ''abc'', PInt 1]])"
      by (simp add: row_raises_def)
    ultimately obtain m where
      "parse_coords_excel demo_lib ''xlsx: text cell'' = Inl (ValueError m)"
      using inst [of "''xlsx: text cell''" _ "[[PStr ''abc'', PInt 1]]"] by blast
    then show ?thesis by simp
  qed
  have 6: "excel_row demo_lib [PInt 3, PInt 4, PStr ''note''] = Inr (Some (3, 4))"
  proof -
    have "py_float demo_lib (PInt 3) = Inr 3" "py_float demo_lib (PInt 4) = Inr 4"
      by (simp_all add: demo_lib_def)
    with inst [of _ _ _ _ _ "[PInt 3, PInt 4, PStr ''note'']" 3 4]
    show ?thesis by simp
  qed
  have 7: "excel_row demo_lib [PNone, PInt 0] = Inr None"
    using inst [of _ _ _ _ _ "[PNone, PInt 0]"] by simp
  from 1 2 3 4 5 6 7 show ?thesis by simp
qed

theorem excel_text_cell_counterexample:
  "load_workbook demo_lib ''xlsx: text cell'' = Inr [[PStr ''abc'', PInt 1]] \<and>
   PStr ''abc'' \<noteq> (PNone :: real pyval) \<and> PInt 1 \<noteq> (PNone :: real pyval) \<and>
   parse_coords_excel demo_lib ''xlsx: text cell'' =
     Inl (ValueError (msg_excel_error @ ''could not convert string to float: '' @
                      [CHR 0x27] @ ''abc'' @ [CHR 0x27]))"
  by (simp add: parse_coords_excel_def parse_coords_excel_try_def excel_row_def
      demo_lib_def demo_load_workbook_def demo_float_of_str_def)

subsection \<open>The chart\<close>

text \<open>
  Claim C9. For a single coordinate the renderer draws the scatter and the connecting line,
  the two axis labels and the grid, and nothing else: no dashed trend line and no annotation,
  and \<^verbatim>\<open>np.polyfit\<close> is not called, so no fit can fail. What the renderer returns is
  what the plotting back end makes of this figure; with a back end that encodes it, as for
  \<^verbatim>\<open>[(5, 5)]\<close>, the chart image is returned.
\<close>

theorem single_point_chart_has_no_trend:
  "create_plot L [(x, y)] =
     savefig L [Scatter [x] [y], Plot [x] [y] ''-'' None, XLabel ''X'', YLabel ''Y'', Grid True] \<and>
   trend_artists L [x] [y] [x] = Inr []"
  by (simp add: create_plot_def sorted_by_x_def trend_artists_def Let_def)

theorem single_point_chart_has_no_trend_witness:
  "parse_coords_json demo_lib ''[[5, 5]]'' = Inr [(5, 5)] \<and>
   create_plot demo_lib [(5, 5)] = Inr ''png chart'' \<and>
   create_plot (demo_lib\<lparr>polyfit := \<lambda>xs ys. Inl (OtherException ''no fit'')\<rparr>) [(5, 5)] =
     Inr ''png chart''"
proof -
  have "parse_coords_json demo_lib ''[[5, 5]]'' = Inr [(5, 5)]"
    by (simp add: parse_coords_json_def parse_coords_json_try_def demo_simps)
  moreover have "create_plot demo_lib [(5, 5)] = Inr ''png chart''"
    using single_point_chart_has_no_trend [of demo_lib 5 5] by (simp add: demo_lib_def)
  moreover have
    "create_plot (demo_lib\<lparr>polyfit := \<lambda>xs ys. Inl (OtherException ''no fit'')\<rparr>) [(5, 5)] =
       Inr ''png chart''"
    using single_point_chart_has_no_trend
      [of "demo_lib\<lparr>polyfit := \<lambda>xs ys. Inl (OtherException ''no fit'')\<rparr>" 5 5]
    by (simp add: demo_lib_def)
  ultimately show ?thesis by simp
qed

subsection \<open>The PDF pages\<close>

text \<open>
  The handler of lines 154-164 reports a password-protected document when
  \<^verbatim>\<open>fitz.open\<close> raises a \<^verbatim>\<open>RuntimeError\<close> whose text, in lower case, holds
  \<^verbatim>\<open>encrypted\<close> or \<^verbatim>\<open>password\<close>, whatever else the text holds.
\<close>

lemma open_failure_with_password_indicator:
  assumes "pdf_bytes \<noteq> []"
    and "fitz_open L pdf_bytes = Inl (RuntimeError e)"
    and "str_contains ''encrypted'' (str_lower e) \<or> str_contains ''password'' (str_lower e)"
  shows "pdf_to_images L pdf_bytes = Inl (ValueError (msg_pdf_error @ msg_pdf_password))"
proof -
  from assms(3) have "classify_open_error e = ValueError msg_pdf_password"
    by (simp add: classify_open_error_def)
  with assms(1,2) show ?thesis
    by (simp add: pdf_to_images_def pdf_to_images_try_def)
qed

text \<open>An exception of the page iteration reaches the outer handler with its own text.\<close>

lemma page_fetch_failure_is_generic:
  assumes "pdf_bytes \<noteq> []"
    and "fitz_open L pdf_bytes = Inr (PageLoadError (ValueError m) # doc)"
  shows "pdf_to_images L pdf_bytes = Inl (ValueError (msg_pdf_error @ m))"
  using assms by (simp add: pdf_to_images_def pdf_to_images_try_def)

text \<open>
  Claim C5, a defect of the code. A password-protected document should fail as encrypted. It
  does not: PyMuPDF opens such a document without an exception, so the handler of lines
  154-164 does not run; the first page fetch of line 167 raises
  \<^verbatim>\<open>ValueError("document closed or encrypted")\<close> outside the inner
  \<^verbatim>\<open>try\<close>, and line 189 reports it with the generic prefix of a PDF error and not with
  the message of the password-protected document. The same text, had it come as the
  \<^verbatim>\<open>RuntimeError\<close> of \<^verbatim>\<open>fitz.open\<close>, would have been classified as
  password-protected.
\<close>

theorem locked_pdf_not_reported_encrypted:
  "fitz_open demo_lib ''pdf: locked'' =
     Inr [PageLoadError (ValueError ''document closed or encrypted'')] \<and>
   pdf_to_images demo_lib ''pdf: locked'' =
     Inl (ValueError (msg_pdf_error @ ''document closed or encrypted'')) \<and>
   pdf_to_images demo_lib ''pdf: locked'' \<noteq>
     Inl (ValueError (msg_pdf_error @ msg_pdf_password)) \<and>
   classify_open_error ''document closed or encrypted'' = ValueError msg_pdf_password"
proof -
  have o: "fitz_open demo_lib ''pdf: locked'' =
     Inr [PageLoadError (ValueError ''document closed or encrypted'')]"
    by (simp add: demo_lib_def demo_fitz_open_def)
  have r: "pdf_to_images demo_lib ''pdf: locked'' =
     Inl (ValueError (msg_pdf_error @ ''document closed or encrypted''))"
    using page_fetch_failure_is_generic [OF _ o] by simp
  have n: "''document closed or encrypted'' \<noteq> msg_pdf_password"
    by (simp add: msg_pdf_password_def)
  have c: "classify_open_error ''document closed or encrypted'' = ValueError msg_pdf_password"
    by (simp add: classify_open_error_def str_lower_def lower_char_def)
  from o r n c show ?thesis by simp
qed

subsection \<open>The request handler\<close>

text \<open>
  Claim C7. When a spreadsheet is supplied the coordinates are those of the spreadsheet
  extractor, failure included, and the answer to the request is the one it would get without
  the text payload: the payload is not looked at and nothing is merged. When there is no
  spreadsheet and the text payload is absent or empty, the request is refused with status 400
  and the message of the missing coordinates, whatever the other fields and whatever the
  libraries would do: nothing else has run.
\<close>

theorem spreadsheet_takes_precedence:
  "request_coords L coords_json (Some f) = parse_coords_excel L f \<and>
   generate_doc L description coords_json (Some f) pdf_file =
     generate_doc L description None (Some f) pdf_file \<and>
   generate_doc L description None None pdf_file =
     Inl (HTTPException 400 [(''error'', msg_no_coords)]) \<and>
   generate_doc L description (Some []) None pdf_file =
     Inl (HTTPException 400 [(''error'', msg_no_coords)])"
  by (simp add: generate_doc_def generate_doc_try_def request_coords_def)

theorem spreadsheet_takes_precedence_witness:
  "parse_coords_json demo_lib ''[[5, 5]]'' = Inr [(5, 5)] \<and>
   request_coords demo_lib (Some ''[[5, 5]]'') (Some ''xlsx: two points'') =
     Inr [(1, 5 / 2), (3, 4)] \<and>
   generate_doc demo_lib None (Some ''[[5, 5]]'') (Some ''xlsx: blank cells'') None =
     Inl (HTTPException 400 [(''error'', msg_excel_error @ msg_excel_empty)]) \<and>
   generate_doc demo_lib None (Some []) None (Some ''pdf: three pages'') =
     Inl (HTTPException 400 [(''error'', msg_no_coords)])"
proof -
  note inst = spreadsheet_takes_precedence [where L = demo_lib]
  have 0: "parse_coords_json demo_lib ''[[5, 5]]'' = Inr [(5, 5)]"
    by (simp add: parse_coords_json_def parse_coords_json_try_def demo_simps)
  have 1: "request_coords demo_lib (Some ''[[5, 5]]'') (Some ''xlsx: two points'') =
     Inr [(1, 5 / 2), (3, 4)]"
    using inst [of "Some ''[[5, 5]]''" "''xlsx: two points''"]
    by (simp add: parse_coords_excel_def parse_coords_excel_try_def excel_row_def demo_simps)
  have 2: "generate_doc demo_lib None (Some ''[[5, 5]]'') (Some ''xlsx: blank cells'') None =
     Inl (HTTPException 400 [(''error'', msg_excel_error @ msg_excel_empty)])"
    using inst [of "Some ''[[5, 5]]''" "''xlsx: blank cells''" None None]
    by (simp add: generate_doc_def generate_doc_try_def request_coords_def
        parse_coords_excel_def parse_coords_excel_try_def excel_row_def demo_simps)
  have 3: "generate_doc demo_lib None (Some []) None (Some ''pdf: three pages'') =
     Inl (HTTPException 400 [(''error'', msg_no_coords)])"
    using inst [of _ _ None "Some ''pdf: three pages''"] by simp
  from 0 1 2 3 show ?thesis by simp
qed

subsection \<open>Failures of a request\<close>

lemma render_pages_ok:
  "\<not> list_ex page_fails doc \<Longrightarrow>
     render_pages n doc images = Inr (images @ page_images doc) \<and>
     length (page_images doc) = length doc"
  by (induction n doc images rule: render_pages.induct) simp_all

lemma render_pages_fails:
  "list_ex page_fails doc \<Longrightarrow> isl (render_pages n doc images)"
  by (induction n doc images rule: render_pages.induct) simp_all

lemma pdf_to_images_raises_ValueError:
  "pdf_to_images L pdf_bytes = Inl e \<Longrightarrow> is_ValueError e"
  by (auto simp: pdf_to_images_def split: sum.splits exn.splits)

lemma parse_coords_json_raises_ValueError:
  "parse_coords_json L s = Inl e \<Longrightarrow> is_ValueError e"
  by (auto simp: parse_coords_json_def split: sum.splits)

lemma parse_coords_excel_raises_ValueError:
  "parse_coords_excel L f = Inl e \<Longrightarrow> is_ValueError e"
  by (auto simp: parse_coords_excel_def split: sum.splits)

lemma request_coords_raises_ValueError:
  "request_coords L coords_json excel_file = Inl e \<Longrightarrow> is_ValueError e"
  by (auto simp: request_coords_def parse_coords_json_raises_ValueError
      parse_coords_excel_raises_ValueError split: option.splits if_splits)

lemma is_ValueError_str: "is_ValueError e \<Longrightarrow> e = ValueError (str_exn e)"
  by (cases e) simp_all

lemma pdf_to_images_page_fails:
  assumes "pdf_bytes \<noteq> []" and "fitz_open L pdf_bytes = Inr doc" and "list_ex page_fails doc"
  shows "\<exists>m. pdf_to_images L pdf_bytes = Inl (ValueError m)"
proof -
  from render_pages_fails [OF assms(3), of 0 "[]"]
  obtain e where "render_pages 0 doc [] = Inl e"
    by (cases "render_pages 0 doc []") auto
  with assms(1,2) have "pdf_to_images_try L pdf_bytes = Inl e"
    by (simp add: pdf_to_images_try_def)
  then show ?thesis
    by (cases e) (simp_all add: pdf_to_images_def)
qed

lemma pdf_to_images_all_pages:
  assumes "pdf_to_images L pdf_bytes = Inr imgs"
  shows "\<exists>doc. fitz_open L pdf_bytes = Inr doc \<and> \<not> list_ex page_fails doc \<and>
           imgs = page_images doc \<and> length imgs = length doc"
proof -
  from assms have t: "pdf_to_images_try L pdf_bytes = Inr imgs"
    by (auto simp: pdf_to_images_def split: sum.splits exn.splits)
  then obtain doc where o: "fitz_open L pdf_bytes = Inr doc" and r: "render_pages 0 doc [] = Inr imgs"
    by (auto simp: pdf_to_images_try_def split: if_splits sum.splits exn.splits)
  have n: "\<not> list_ex page_fails doc"
  proof
    assume "list_ex page_fails doc"
    from render_pages_fails [OF this, of 0 "[]"] r show False by simp
  qed
  from render_pages_ok [OF n, of 0 "[]"] r o n show ?thesis by simp
qed

lemma pictures_page_blocks: "pictures (page_blocks i imgs) = imgs"
  by (induction i imgs rule: page_blocks.induct) simp_all

lemma pictures_report_blocks: "pictures (report_blocks d plot imgs) = plot # imgs"
  by (simp add: report_blocks_def pictures_page_blocks)

lemma generate_doc_complete:
  assumes "generate_doc L d cj xf pf = Inr resp"
  shows "\<exists>coords plot imgs.
           request_coords L cj xf = Inr coords \<and>
           (case pf of None \<Rightarrow> Inr [] | Some b \<Rightarrow> pdf_to_images L b) = Inr imgs \<and>
           create_plot L coords = Inr plot \<and>
           docx_save L (report_blocks d plot imgs) = Inr (content resp) \<and>
           pictures (report_blocks d plot imgs) = plot # imgs"
proof -
  from assms have "generate_doc_try L d cj xf pf = Inr resp"
    by (auto simp: generate_doc_def split: sum.splits exn.splits)
  then show ?thesis
    by (auto simp: generate_doc_try_def pictures_report_blocks split: sum.splits)
qed

lemma generate_doc_pdf_fails:
  assumes "pdf_to_images L pdf_bytes = Inl e"
  shows "isl (generate_doc L d cj xf (Some pdf_bytes))"
proof (cases "request_coords L cj xf")
  case (Inl e')
  then show ?thesis
    by (cases e') (simp_all add: generate_doc_def generate_doc_try_def)
next
  case (Inr coords)
  with assms show ?thesis
    by (cases e) (simp_all add: generate_doc_def generate_doc_try_def)
qed

text \<open>
  Claim C8. The rasterizer returns images only when every page of the opened document was
  fetched and rendered, and then one image per page, in page order; a page that fails makes
  it raise, and no image of the pages before it is returned. The handler answers with a
  document only when the coordinates, all page images and the chart were obtained and the
  whole report (the chart and every page image) was saved; when the rasterizer fails the
  answer is an error and carries no document.
\<close>

theorem no_partial_results:
  "(pdf_bytes \<noteq> [] \<and> fitz_open L pdf_bytes = Inr doc \<and> list_ex page_fails doc \<longrightarrow>
      (\<exists>m. pdf_to_images L pdf_bytes = Inl (ValueError m))) \<and>
   (pdf_to_images L pdf_bytes = Inr imgs \<longrightarrow>
      (\<exists>doc. fitz_open L pdf_bytes = Inr doc \<and> \<not> list_ex page_fails doc \<and>
         imgs = page_images doc \<and> length imgs = length doc)) \<and>
   (pdf_to_images L pdf_bytes = Inl e \<longrightarrow>
      isl (generate_doc L description coords_json excel_file (Some pdf_bytes))) \<and>
   (generate_doc L description coords_json excel_file pdf_file = Inr resp \<longrightarrow>
      (\<exists>coords plot images.
         request_coords L coords_json excel_file = Inr coords \<and>
         (case pdf_file of None \<Rightarrow> Inr [] | Some b \<Rightarrow> pdf_to_images L b) = Inr images \<and>
         create_plot L coords = Inr plot \<and>
         docx_save L (report_blocks description plot images) = Inr (content resp) \<and>
         pictures (report_blocks description plot images) = plot # images))"
proof (intro conjI impI)
  assume "pdf_bytes \<noteq> [] \<and> fitz_open L pdf_bytes = Inr doc \<and> list_ex page_fails doc"
  then show "\<exists>m. pdf_to_images L pdf_bytes = Inl (ValueError m)"
    using pdf_to_images_page_fails [of pdf_bytes L doc] by simp
next
  assume "pdf_to_images L pdf_bytes = Inr imgs"
  then show "\<exists>doc. fitz_open L pdf_bytes = Inr doc \<and> \<not> list_ex page_fails doc \<and>
         imgs = page_images doc \<and> length imgs = length doc"
    by (rule pdf_to_images_all_pages)
next
  assume "pdf_to_images L pdf_bytes = Inl e"
  then show "isl (generate_doc L description coords_json excel_file (Some pdf_bytes))"
    by (rule generate_doc_pdf_fails)
next
  assume "generate_doc L description coords_json excel_file pdf_file = Inr resp"
  then show "\<exists>coords plot images.
         request_coords L coords_json excel_file = Inr coords \<and>
         (case pdf_file of None \<Rightarrow> Inr [] | Some b \<Rightarrow> pdf_to_images L b) = Inr images \<and>
         create_plot L coords = Inr plot \<and>
         docx_save L (report_blocks description plot images) = Inr (content resp) \<and>
         pictures (report_blocks description plot images) = plot # images"
    by (rule generate_doc_complete)
qed

theorem no_partial_results_witness:
  "pdf_to_images demo_lib ''pdf: three pages'' = Inr [''png 1'', ''png 2'', ''png 3''] \<and>
   isl (pdf_to_images demo_lib ''pdf: second page fails'') \<and>
   isl (generate_doc demo_lib None (Some ''[[5, 5]]'') None (Some ''pdf: second page fails'')) \<and>
   generate_doc demo_lib None (Some ''[[5, 5]]'') None (Some ''pdf: three pages'') =
     Inr (StreamingResponse ''docx report'' docx_media_type
            [(''Content-Disposition'', ''attachment; filename=generated_document.docx'')]) \<and>
   pictures (report_blocks None ''png chart'' [''png 1'', ''png 2'', ''png 3'']) =
     [''png chart'', ''png 1'', ''png 2'', ''png 3'']"
proof -
  note inst = no_partial_results [where L = demo_lib]
  let ?bad = "[Page (Inr ''png 1''), Page (Inl (OtherException ''bad image'')),
               Page (Inr ''png 3'')]"
  have o: "fitz_open demo_lib ''pdf: second page fails'' = Inr ?bad"
    by (simp add: demo_lib_def demo_fitz_open_def)
  have f: "list_ex page_fails ?bad" by simp
  have n: "''pdf: second page fails'' \<noteq> []" by simp
  from inst [of "''pdf: second page fails''" ?bad] o f n
  obtain m where m: "pdf_to_images demo_lib ''pdf: second page fails'' = Inl (ValueError m)"
    by blast
  then have 1: "isl (pdf_to_images demo_lib ''pdf: second page fails'')" by simp
  from inst [of "''pdf: second page fails''" _ _ "ValueError m" None "Some ''[[5, 5]]''" None] m
  have 2: "isl (generate_doc demo_lib None (Some ''[[5, 5]]'') None
                  (Some ''pdf: second page fails''))"
    by blast
  have 3: "pdf_to_images demo_lib ''pdf: three pages'' = Inr [''png 1'', ''png 2'', ''png 3'']"
    by (simp add: pdf_to_images_def pdf_to_images_try_def demo_lib_def demo_fitz_open_def)
  have c: "parse_coords_json demo_lib ''[[5, 5]]'' = Inr [(5, 5)]"
    by (simp add: parse_coords_json_def parse_coords_json_try_def demo_simps)
  have p: "create_plot demo_lib [(5, 5)] = Inr ''png chart''"
    by (simp add: create_plot_def sorted_by_x_def trend_artists_def Let_def demo_lib_def)
  have s: "docx_save demo_lib (report_blocks None ''png chart'' [''png 1'', ''png 2'', ''png 3'']) =
     Inr ''docx report''"
    by (simp add: demo_lib_def demo_docx_save_def report_blocks_def)
  have 4: "generate_doc demo_lib None (Some ''[[5, 5]]'') None (Some ''pdf: three pages'') =
     Inr (StreamingResponse ''docx report'' docx_media_type
            [(''Content-Disposition'', ''attachment; filename=generated_document.docx'')])"
    by (simp add: generate_doc_def generate_doc_try_def request_coords_def c 3 p s)
  from inst [of _ _ _ _ None "Some ''[[5, 5]]''" None "Some ''pdf: three pages''"] 4 c 3 p
  have 5: "pictures (report_blocks None ''png chart'' [''png 1'', ''png 2'', ''png 3'']) =
     [''png chart'', ''png 1'', ''png 2'', ''png 3'']"
    by (auto simp: request_coords_def)
  from 1 2 3 4 5 show ?thesis by simp
qed

lemma generate_doc_status:
  "generate_doc L d cj xf pf = Inl h \<Longrightarrow>
     (status_code h = 400 \<or> status_code h = 500) \<and> (\<exists>m. detail h = [(''error'', m)])"
  by (auto simp: generate_doc_def split: sum.splits exn.splits)

lemma generate_doc_ValueError:
  "generate_doc_try L d cj xf pf = Inl (ValueError m) \<Longrightarrow>
     generate_doc L d cj xf pf = Inl (HTTPException 400 [(''error'', m)])"
  by (simp add: generate_doc_def)

lemma generate_doc_other:
  "generate_doc_try L d cj xf pf = Inl e \<Longrightarrow> \<not> is_ValueError e \<Longrightarrow>
     generate_doc L d cj xf pf = Inl (HTTPException 500 [(''error'', msg_internal @ str_exn e)])"
  by (cases e) (simp_all add: generate_doc_def)

text \<open>
  Claim C6, as amended. Every failure of a request is answered with one status, 400 or 500,
  and a body with the single field \<^verbatim>\<open>error\<close>. The status follows the class of the
  exception: 400 for a \<^verbatim>\<open>ValueError\<close>, with its text as the message, and 500 for any
  other exception, with its text after the prefix of the internal error. Every failure of the
  coordinate extractors and of the rasterizer (malformed coordinates; an empty, malformed or
  encrypted document; memory exhausted) is a \<^verbatim>\<open>ValueError\<close> and so gets 400. A failure
  inside the chart or the report libraries gets 500 unless it is a \<^verbatim>\<open>ValueError\<close>,
  which gets 400 as well.

  As the claim stands, every failure of report assembly gets 500. That fails: a description
  with a control character makes the document library raise a \<^verbatim>\<open>ValueError\<close>, which
  line 238 answers with 400.
\<close>

theorem failure_status_follows_exception_class:
  "(generate_doc L description coords_json excel_file pdf_file = Inl h \<longrightarrow>
      (status_code h = 400 \<or> status_code h = 500) \<and> (\<exists>m. detail h = [(''error'', m)])) \<and>
   (request_coords L coords_json excel_file = Inl e \<longrightarrow>
      generate_doc L description coords_json excel_file pdf_file =
        Inl (HTTPException 400 [(''error'', str_exn e)])) \<and>
   (request_coords L coords_json excel_file = Inr coords \<and> pdf_to_images L b = Inl e \<longrightarrow>
      generate_doc L description coords_json excel_file (Some b) =
        Inl (HTTPException 400 [(''error'', str_exn e)])) \<and>
   (request_coords L coords_json excel_file = Inr coords \<and>
    (case pdf_file of None \<Rightarrow> Inr [] | Some b \<Rightarrow> pdf_to_images L b) = Inr images \<and>
    (create_plot L coords = Inl e \<or>
     create_plot L coords = Inr plot \<and>
       docx_save L (report_blocks description plot images) = Inl e) \<longrightarrow>
      generate_doc L description coords_json excel_file pdf_file =
        (if is_ValueError e then Inl (HTTPException 400 [(''error'', str_exn e)])
         else Inl (HTTPException 500 [(''error'', msg_internal @ str_exn e)])))"
proof (intro conjI impI)
  assume "generate_doc L description coords_json excel_file pdf_file = Inl h"
  from generate_doc_status [OF this]
  show "status_code h = 400 \<or> status_code h = 500" and "\<exists>m. detail h = [(''error'', m)]"
    by simp_all
next
  assume a: "request_coords L coords_json excel_file = Inl e"
  then have "generate_doc_try L description coords_json excel_file pdf_file = Inl e"
    by (simp add: generate_doc_try_def)
  with is_ValueError_str [OF request_coords_raises_ValueError [OF a]]
  show "generate_doc L description coords_json excel_file pdf_file =
        Inl (HTTPException 400 [(''error'', str_exn e)])"
    by (metis generate_doc_ValueError)
next
  assume a: "request_coords L coords_json excel_file = Inr coords \<and> pdf_to_images L b = Inl e"
  then have "generate_doc_try L description coords_json excel_file (Some b) = Inl e"
    by (simp add: generate_doc_try_def)
  with is_ValueError_str [OF pdf_to_images_raises_ValueError [of L b e]] a
  show "generate_doc L description coords_json excel_file (Some b) =
        Inl (HTTPException 400 [(''error'', str_exn e)])"
    by (metis generate_doc_ValueError)
next
  assume a: "request_coords L coords_json excel_file = Inr coords \<and>
    (case pdf_file of None \<Rightarrow> Inr [] | Some b \<Rightarrow> pdf_to_images L b) = Inr images \<and>
    (create_plot L coords = Inl e \<or>
     create_plot L coords = Inr plot \<and>
       docx_save L (report_blocks description plot images) = Inl e)"
  then have t: "generate_doc_try L description coords_json excel_file pdf_file = Inl e"
    by (auto simp: generate_doc_try_def)
  show "generate_doc L description coords_json excel_file pdf_file =
        (if is_ValueError e then Inl (HTTPException 400 [(''error'', str_exn e)])
         else Inl (HTTPException 500 [(''error'', msg_internal @ str_exn e)]))"
  proof (cases "is_ValueError e")
    case True
    with t is_ValueError_str [OF True] show ?thesis
      by (metis generate_doc_ValueError)
  next
    case False
    with t show ?thesis by (simp add: generate_doc_other)
  qed
qed

theorem failure_status_follows_exception_class_witness:
  "generate_doc demo_lib None (Some ''not json'') None None =
     Inl (HTTPException 400
            [(''error'', msg_bad_coords @ ''Expecting value: line 1 column 1 (char 0)'')]) \<and>
   generate_doc demo_lib None (Some ''[[5, 5]]'') None (Some ''pdf: locked'') =
     Inl (HTTPException 400 [(''error'', msg_pdf_error @ ''document closed or encrypted'')]) \<and>
   generate_doc (demo_lib\<lparr>savefig := \<lambda>artists. Inl (MemoryError ''out of memory'')\<rparr>)
       None (Some ''[[5, 5]]'') None None =
     Inl (HTTPException 500 [(''error'', msg_internal @ ''out of memory'')])"
proof -
  let ?L = "demo_lib\<lparr>savefig := \<lambda>artists. Inl (MemoryError ''out of memory'')\<rparr>"
  have c0: "request_coords demo_lib (Some ''not json'') None =
     Inl (ValueError (msg_bad_coords @ ''Expecting value: line 1 column 1 (char 0)''))"
    by (simp add: request_coords_def parse_coords_json_def parse_coords_json_try_def demo_simps)
  have c: "request_coords demo_lib (Some ''[[5, 5]]'') None = Inr [(5, 5)]"
    by (simp add: request_coords_def parse_coords_json_def parse_coords_json_try_def demo_simps)
  have c': "request_coords ?L (Some ''[[5, 5]]'') None = Inr [(5, 5)]"
    by (simp add: request_coords_def parse_coords_json_def parse_coords_json_try_def demo_simps)
  have p: "pdf_to_images demo_lib ''pdf: locked'' =
     Inl (ValueError (msg_pdf_error @ ''document closed or encrypted''))"
    by (simp add: pdf_to_images_def pdf_to_images_try_def demo_lib_def demo_fitz_open_def)
  have g: "create_plot ?L [(5, 5)] = Inl (MemoryError ''out of memory'')"
    by (simp add: create_plot_def sorted_by_x_def trend_artists_def Let_def)
  from failure_status_follows_exception_class
         [of demo_lib None "Some ''not json''" None None _
             "ValueError (msg_bad_coords @ ''Expecting value: line 1 column 1 (char 0)'')"] c0
  have 1: "generate_doc demo_lib None (Some ''not json'') None None =
     Inl (HTTPException 400
            [(''error'', msg_bad_coords @ ''Expecting value: line 1 column 1 (char 0)'')])"
    by simp
  from failure_status_follows_exception_class
         [of demo_lib None "Some ''[[5, 5]]''" None _ _
             "ValueError (msg_pdf_error @ ''document closed or encrypted'')" "[(5, 5)]"
             "''pdf: locked''"] c p
  have 2: "generate_doc demo_lib None (Some ''[[5, 5]]'') None (Some ''pdf: locked'') =
     Inl (HTTPException 400 [(''error'', msg_pdf_error @ ''document closed or encrypted'')])"
    by simp
  from failure_status_follows_exception_class
         [of ?L None "Some ''[[5, 5]]''" None None _
             "MemoryError ''out of memory''" "[(5, 5)]" _ "[]"] c' g
  have 3: "generate_doc ?L None (Some ''[[5, 5]]'') None None =
     Inl (HTTPException 500 [(''error'', msg_internal @ ''out of memory'')])"
    by simp
  from 1 2 3 show ?thesis by simp
qed

theorem assembly_ValueError_gets_400_counterexample:
  "docx_save demo_lib (report_blocks (Some [CHR 0x01]) ''png chart'' []) =
     Inl (ValueError (''All strings must be XML compatible: Unicode or ASCII, '' @
                      ''no NULL bytes or control characters'')) \<and>
   generate_doc demo_lib (Some [CHR 0x01]) (Some ''[[5, 5]]'') None None =
     Inl (HTTPException 400
            [(''error'', ''All strings must be XML compatible: Unicode or ASCII, '' @
                         ''no NULL bytes or control characters'')])"
  by (simp add: generate_doc_def generate_doc_try_def request_coords_def
      parse_coords_json_def parse_coords_json_try_def create_plot_def sorted_by_x_def trend_artists_def Let_def
      report_blocks_def demo_docx_save_def demo_simps)

subsection \<open>The trend line\<close>

text \<open>
  For two coordinates or more, \<^verbatim>\<open>np.polyfit\<close> is called on the x and y values in the
  order of the coordinate sequence, not of the sorted copy. When it returns the coefficients
  \<open>(k, b)\<close>, the figure holds, after the scatter and the connecting line, the dashed line
  through the fitted values at the sorted x values and the annotation made of the label and
  the two coefficients in the format \<^verbatim>\<open>.3f\<close>; when it raises, so does the renderer.
\<close>

theorem trend_line_from_original_order:
  "create_plot L (c1 # c2 # coords) =
     (case polyfit L (map fst (c1 # c2 # coords)) (map snd (c1 # c2 # coords)) of
        Inl e \<Rightarrow> Inl e
      | Inr (k, b) \<Rightarrow>
          savefig L
            [Scatter (map fst (c1 # c2 # coords)) (map snd (c1 # c2 # coords)),
             Plot (map fst (py_sorted L (c1 # c2 # coords)))
                  (map snd (py_sorted L (c1 # c2 # coords))) ''-'' None,
             Plot (map fst (py_sorted L (c1 # c2 # coords)))
                  (polyval L (k, b) (map fst (py_sorted L (c1 # c2 # coords))))
                  ''--'' (Some 1),
             AxesText (2 / 100) (98 / 100)
               (trend_label @ format_3f L k @ ''x+'' @ format_3f L b),
             XLabel ''X'', YLabel ''Y'', Grid True])"
proof -
  have "zip (map fst (c1 # c2 # coords)) (map snd (c1 # c2 # coords)) = c1 # c2 # coords"
    by (simp only: zip_map_fst_snd)
  then show ?thesis
    by (simp add: create_plot_def sorted_by_x_def trend_artists_def Let_def
        split: sum.splits prod.splits)
qed

end
